theory Spec2Isabelle
  imports Main "HOL-Library.Sublist"
begin

section \<open>The scraping pipeline of \<^verbatim>\<open>scrap_n_answer.py\<close>\<close>

text \<open>
  The script fetches a homepage, keeps the anchors whose lowercased href contains one of
  a fixed list of keywords, scrapes the text of each such page, sends the joined text to
  a language model and writes one CSV record per seed URL.

  What the script computes itself is modelled concretely: the keyword test, the loop
  over the anchors, the removal of duplicates, the removal of five kinds of elements,
  the joining and truncation of text, the three \<^verbatim>\<open>try\<close> blocks and the main loop. What
  it obtains from libraries is a field of an environment record: the HTTP client, the
  HTML parser, \<^verbatim>\<open>urljoin\<close>, the case tables of Unicode beyond Latin-1, the iteration order
  of a Python set, the random generator, the model client and the CSV writer. The calls
  that the script makes outside its \<^verbatim>\<open>try\<close> blocks and that can raise (the parser,
  \<^verbatim>\<open>urljoin\<close>, the CSV writer) return an exception or a value, as the calls inside them
  do. The HTTP client, the random generator, the model client and the CSV writer may
  answer differently on each call, so they read and change a world state of an
  arbitrary type \<open>'w\<close>.
\<close>

subsection \<open>Strings\<close>

text \<open>
  A Python string is a sequence of Unicode code points, here a list of natural numbers.
  \<open>lit\<close> turns a literal into its code points.
\<close>

type_synonym str = "nat list"

definition lit :: "string \<Rightarrow> str" where
  "lit s = map of_char s"

text \<open>
  \<^verbatim>\<open>c.isupper()\<close> and the lowercase form of a code point below 256: the letters A to Z
  and the capital letters of Latin-1, U+00C0 to U+00DE without the multiplication sign,
  each 32 below its lowercase form.
\<close>

definition isupper_latin1 :: "nat \<Rightarrow> bool" where
  "isupper_latin1 c = ((65 \<le> c \<and> c \<le> 90) \<or> (192 \<le> c \<and> c \<le> 222 \<and> c \<noteq> 215))"

definition lower_latin1 :: "nat \<Rightarrow> nat" where
  "lower_latin1 c = (if isupper_latin1 c then c + 32 else c)"

text \<open>
  \<^verbatim>\<open>c.isspace()\<close>, the characters that \<^verbatim>\<open>strip()\<close> removes: the whitespace of ASCII and
  Latin-1 and the Unicode spaces U+1680, U+2000 to U+200A, U+2028, U+2029, U+202F,
  U+205F and U+3000.
\<close>

definition is_space :: "nat \<Rightarrow> bool" where
  "is_space c = (c \<in> {9, 10, 11, 12, 13, 28, 29, 30, 31, 32, 133, 160, 5760,
     8192, 8193, 8194, 8195, 8196, 8197, 8198, 8199, 8200, 8201, 8202,
     8232, 8233, 8239, 8287, 12288})"

text \<open>\<^verbatim>\<open>s.strip()\<close>: leading and trailing whitespace removed.\<close>

definition strip :: "str \<Rightarrow> str" where
  "strip s = rev (dropWhile is_space (rev (dropWhile is_space s)))"

text \<open>\<^verbatim>\<open>" ".join(xs)\<close>\<close>

fun join_space :: "str list \<Rightarrow> str" where
  "join_space [] = []"
| "join_space [x] = x"
| "join_space (x # y # ys) = x @ lit '' '' @ join_space (y # ys)"

text \<open>\<^verbatim>\<open>keyword in href\<close>: the keyword occurs in the href as a contiguous substring.\<close>

fun contains :: "str \<Rightarrow> str \<Rightarrow> bool" where
  "contains [] keyword = (keyword = [])"
| "contains (c # cs) keyword = (prefix keyword (c # cs) \<or> contains cs keyword)"

text \<open>Decimal digits of a number, as an f-string prints an integer.\<close>

fun str_nat :: "nat \<Rightarrow> str" where
  "str_nat n = (if n < 10 then [48 + n] else str_nat (n div 10) @ [48 + n mod 10])"

declare str_nat.simps [simp del]

subsection \<open>Exceptions, responses, documents\<close>

text \<open>
  The script distinguishes two classes of exception: \<^verbatim>\<open>requests.RequestException\<close> with
  its subclasses (\<^verbatim>\<open>HTTPError\<close>, \<^verbatim>\<open>ConnectionError\<close>, \<^verbatim>\<open>Timeout\<close>, ...), which its
  \<^verbatim>\<open>except\<close> clauses catch, and every other exception, which they do not catch. Each
  carries the text that \<^verbatim>\<open>str(error)\<close> gives.
\<close>

datatype exn = RequestException str | OtherException str

record response =
  status_code :: nat
  reason :: str
  resp_url :: str
  resp_text :: str

text \<open>
  \<^verbatim>\<open>response.raise_for_status()\<close>: an \<^verbatim>\<open>HTTPError\<close>, which is a \<^verbatim>\<open>RequestException\<close>,
  for the status codes 400 to 599.
\<close>

definition raise_for_status :: "response \<Rightarrow> exn option" where
  "raise_for_status r =
     (if 400 \<le> status_code r \<and> status_code r < 500 then
        Some (RequestException
          (str_nat (status_code r) @ lit '' Client Error: '' @ reason r
             @ lit '' for url: '' @ resp_url r))
      else if 500 \<le> status_code r \<and> status_code r < 600 then
        Some (RequestException
          (str_nat (status_code r) @ lit '' Server Error: '' @ reason r
             @ lit '' for url: '' @ resp_url r))
      else None)"

text \<open>
  A parsed document: text nodes, the other string nodes (comments, declarations), and
  elements with a name, a dictionary of attributes and children. The soup is the list of
  the top-level nodes.
\<close>

datatype node =
    Text str
  | Comment str
  | Element str "str \<rightharpoonup> str" "node list"

text \<open>All nodes below a node, in document order.\<close>

fun descendants :: "node \<Rightarrow> node list" where
  "descendants (Element name attrs children) =
     concat (map (\<lambda>child. child # descendants child) children)"
| "descendants (Text s) = []"
| "descendants (Comment s) = []"

definition soup_descendants :: "node list \<Rightarrow> node list" where
  "soup_descendants soup = concat (map (\<lambda>child. child # descendants child) soup)"

fun is_tag :: "str list \<Rightarrow> node \<Rightarrow> bool" where
  "is_tag names (Element name attrs children) = (name \<in> set names)"
| "is_tag names (Text s) = False"
| "is_tag names (Comment s) = False"

fun get_attr :: "node \<Rightarrow> str \<Rightarrow> str option" where
  "get_attr (Element name attrs children) key = attrs key"
| "get_attr (Text s) key = None"
| "get_attr (Comment s) key = None"

text \<open>\<^verbatim>\<open>soup.find_all("a", href=True)\<close>: the elements named \<^verbatim>\<open>a\<close> that have an href.\<close>

definition find_all_a_href :: "node list \<Rightarrow> node list" where
  "find_all_a_href soup =
     filter (\<lambda>n. is_tag [lit ''a''] n \<and> get_attr n (lit ''href'') \<noteq> None)
       (soup_descendants soup)"

text \<open>
  \<^verbatim>\<open>for tag in soup(names): tag.extract()\<close>. The call \<^verbatim>\<open>soup(names)\<close> collects every
  element whose name is in the list, at any depth, before the loop starts; the loop
  detaches each of them from its parent, with all that it contains. An element found
  inside another found element has left the soup with that element already. The
  function gives the soup that is left when the loop has ended: the tree without the
  elements of those names.
\<close>

fun extract_tags :: "str list \<Rightarrow> node \<Rightarrow> node list" where
  "extract_tags names (Element name attrs children) =
     (if name \<in> set names then []
      else [Element name attrs (concat (map (extract_tags names) children))])"
| "extract_tags names (Text s) = [Text s]"
| "extract_tags names (Comment s) = [Comment s]"

definition extract_all :: "str list \<Rightarrow> node list \<Rightarrow> node list" where
  "extract_all names soup = concat (map (extract_tags names) soup)"

text \<open>
  \<^verbatim>\<open>soup.stripped_strings\<close>: the text nodes in document order, each stripped, those that
  are empty after stripping left out. Comments and declarations are not yielded.
\<close>

fun stripped_string :: "node \<Rightarrow> str list" where
  "stripped_string (Text s) = (if strip s = [] then [] else [strip s])"
| "stripped_string (Comment s) = []"
| "stripped_string (Element name attrs children) = []"

definition stripped_strings :: "node list \<Rightarrow> str list" where
  "stripped_strings soup = concat (map stripped_string (soup_descendants soup))"

subsection \<open>The environment and the program state\<close>

text \<open>
  \<open>requests_get url\<close> is \<^verbatim>\<open>requests.get(url, timeout=10)\<close>. \<open>BeautifulSoup html\<close> is
  \<^verbatim>\<open>BeautifulSoup(html, "html.parser")\<close>, which raises for markup that the parser
  rejects. \<open>urljoin base href\<close> is \<^verbatim>\<open>requests.compat.urljoin(base, href)\<close>, which raises
  \<^verbatim>\<open>ValueError\<close> for an href that it cannot split. \<open>str_lower\<close> and \<open>str_isupper\<close> are
  \<^verbatim>\<open>str.lower\<close> and \<^verbatim>\<open>str.isupper\<close>, consulted for code points from 256 on.
  \<open>generate_content model prompt\<close> is
  \<^verbatim>\<open>genai.GenerativeModel(model).generate_content(prompt).text\<close>. \<open>to_csv path records\<close>
  is the write of the CSV file, which raises when the file cannot be written.
\<close>

record 'w env =
  requests_get :: "str \<Rightarrow> 'w \<Rightarrow> (exn + response) \<times> 'w"
  BeautifulSoup :: "str \<Rightarrow> exn + node list"
  urljoin :: "str \<Rightarrow> str \<Rightarrow> exn + str"
  str_lower :: "str \<Rightarrow> str"
  str_isupper :: "nat \<Rightarrow> bool"
  set_rank :: "str list \<Rightarrow> str \<Rightarrow> nat"
  randbelow :: "nat \<Rightarrow> 'w \<Rightarrow> nat \<times> 'w"
  generate_content :: "str \<Rightarrow> str \<Rightarrow> 'w \<Rightarrow> (exn + str) \<times> 'w"
  to_csv :: "str \<Rightarrow> str list list \<Rightarrow> 'w \<Rightarrow> exn option \<times> 'w"

record 'w state =
  world :: 'w
  stdout :: "str list"
  csv_file :: "str list list option"

definition print :: "str \<Rightarrow> 'w state \<Rightarrow> 'w state" where
  "print line st = st\<lparr>stdout := stdout st @ [line]\<rparr>"

text \<open>
  \<^verbatim>\<open>s.lower()\<close>. On a string of code points below 256 it maps each code point by
  itself. On any other string the result depends on the Unicode tables, which give
  some code points a lowercase form of several code points, give others that are
  uppercase none at all, and treat the capital sigma by its position.
\<close>

definition lower :: "'w env \<Rightarrow> str \<Rightarrow> str" where
  "lower env s = (if list_all (\<lambda>c. c < 256) s then map lower_latin1 s else str_lower env s)"


text \<open>
  \<^verbatim>\<open>response = requests.get(url, timeout=10); response.raise_for_status()\<close>, the body
  of the \<^verbatim>\<open>try\<close> block of both fetching functions.
\<close>

definition get_checked :: "'w env \<Rightarrow> str \<Rightarrow> 'w state \<Rightarrow> (exn + response) \<times> 'w state" where
  "get_checked env url st =
     (case requests_get env url (world st) of
        (Inl error, w) \<Rightarrow> (Inl error, st\<lparr>world := w\<rparr>)
      | (Inr response, w) \<Rightarrow>
          (case raise_for_status response of
             Some error \<Rightarrow> (Inl error, st\<lparr>world := w\<rparr>)
           | None \<Rightarrow> (Inr response, st\<lparr>world := w\<rparr>)))"

text \<open>
  \<^verbatim>\<open>list(set(links))\<close>: every element once, in an order that Python leaves open. The
  environment ranks the elements; every order of the distinct elements is the result
  for some ranking.
\<close>

definition list_of_set :: "'w env \<Rightarrow> str list \<Rightarrow> str list" where
  "list_of_set env links = sort_key (set_rank env links) (remdups links)"

subsection \<open>Link discovery\<close>

definition MODELS :: "str list" where
  "MODELS = [lit ''gemini-2.0-pro-exp'', lit ''gemini-1.5-pro'', lit ''gemini-2.0-flash'']"

definition URLS :: "str list" where
  "URLS = [lit ''https://lenovo.com'', lit ''https://www.gsk.com'', lit ''https://www.tcs.com'',
     lit ''https://www.ford.com'', lit ''https://www.siemens-energy.com'',
     lit ''https://www.americanexpress.com'']"

definition RELEVANT_LINKS :: "str list" where
  "RELEVANT_LINKS = [lit ''home'', lit ''about'', lit ''contact'', lit ''services'',
     lit ''products'', lit ''Contact Us'', lit ''About Lenovo'', lit ''Investors'',
     lit ''Vehicles'']"

text \<open>\<^verbatim>\<open>any(keyword in href for keyword in RELEVANT_LINKS)\<close>\<close>

definition any_keyword :: "str \<Rightarrow> bool" where
  "any_keyword href = list_ex (\<lambda>keyword. contains href keyword) RELEVANT_LINKS"

text \<open>
  The loop over the anchors. \<^verbatim>\<open>anchor["href"]\<close> raises \<^verbatim>\<open>KeyError\<close> for an element
  without that attribute, and an exception of \<^verbatim>\<open>urljoin\<close> ends the loop and the function.
\<close>

fun links_loop ::
  "'w env \<Rightarrow> str \<Rightarrow> node list \<Rightarrow> str list \<Rightarrow> 'w state \<Rightarrow> (exn + str list) \<times> 'w state" where
  "links_loop env base_url [] links st = (Inr links, st)"
| "links_loop env base_url (anchor # anchors) links st =
     (case get_attr anchor (lit ''href'') of
        None \<Rightarrow> (Inl (OtherException (lit ''KeyError: href'')), st)
      | Some value \<Rightarrow>
          (let href = lower env value in
           if any_keyword href then
             (case urljoin env base_url href of
                Inl error \<Rightarrow> (Inl error, st)
              | Inr full_url \<Rightarrow>
                  links_loop env base_url anchors (links @ [full_url])
                    (print (lit ''Found relevant link: '' @ full_url) st))
           else links_loop env base_url anchors links st))"

definition get_relevant_links ::
  "'w env \<Rightarrow> str \<Rightarrow> 'w state \<Rightarrow> (exn + str list) \<times> 'w state" where
  "get_relevant_links env base_url st =
     (case get_checked env base_url st of
        (Inl (RequestException error), st1) \<Rightarrow>
          (Inr [], print (lit ''Error fetching '' @ base_url @ lit '': '' @ error) st1)
      | (Inl (OtherException error), st1) \<Rightarrow> (Inl (OtherException error), st1)
      | (Inr response, st1) \<Rightarrow>
          (case BeautifulSoup env (resp_text response) of
             Inl error \<Rightarrow> (Inl error, st1)
           | Inr soup \<Rightarrow>
               (case links_loop env base_url (find_all_a_href soup) [] st1 of
                  (Inl error, st2) \<Rightarrow> (Inl error, st2)
                | (Inr links, st2) \<Rightarrow> (Inr (list_of_set env links), st2))))"

subsection \<open>Page scraping\<close>

definition scrape_text :: "'w env \<Rightarrow> str \<Rightarrow> 'w state \<Rightarrow> (exn + str) \<times> 'w state" where
  "scrape_text env url st =
     (case get_checked env url st of
        (Inl (RequestException error), st1) \<Rightarrow>
          (Inr [], print (lit ''Error scraping '' @ url @ lit '': '' @ error) st1)
      | (Inl (OtherException error), st1) \<Rightarrow> (Inl (OtherException error), st1)
      | (Inr response, st1) \<Rightarrow>
          (case BeautifulSoup env (resp_text response) of
             Inl error \<Rightarrow> (Inl error, st1)
           | Inr soup \<Rightarrow>
               (let soup = extract_all [lit ''script'', lit ''style'', lit ''header'',
                                        lit ''footer'', lit ''nav''] soup;
                    text = join_space (stripped_strings soup)
                in (Inr (take 1000 text), st1))))"

subsection \<open>Detail extraction\<close>

text \<open>The two parts of the prompt template, before and after the embedded text.\<close>

definition prompt_head :: str where
  \<open>prompt_head = lit (concat
    [''\<newline>'',
     ''                Content:\<newline>'',
     ''                    ''])\<close>

definition prompt_tail :: str where
  \<open>prompt_tail = lit (concat
    [''\<newline>'',
     ''                    You are a technical content writer for a person who is in the field of Market Research meaning\<newline>'',
     ''                        he wants constantly wants data of many companies That is why he wants to know about the company\<newline>'',
     ''                        -"What is the company's mission statement or core values?"\<newline>'',
     ''                        -"What products or services does the company offer?"\<newline>'',
     ''                        -"When was the company founded, and who were the founders?"\<newline>'',
     ''                        -"Where is the company's headquarters located?"\<newline>'',
     ''                        -"Who are the key executives or leadership team members?"\<newline>'',
     ''                        -"Has the company received any notable awards or recognitions?"\<newline>'',
     ''                        \<newline>'',
     ''                        \<newline>'',
     ''                        Output format should follow only text in csv format without any markdown elements and the first row should contain the questions and quoted for each question and answer and only one "" so that it can be recognized as a cell in csv.\<newline>'',
     ''                        Don't Quote the whole response, only the answers to the questions. And the questions which have comma in them should be quoted.\<newline>'',
     ''                        Answer these questions from the given text content.\<newline>'',
     ''                        No other text needs to be generated just the answers to these questions.\<newline>'',
     ''                        If the answer is not present in the text, then say "Not Available".\<newline>'',
     ''                        The answers should be human like and shouldn't explicitly say anything about the availability of information in the text.\<newline>'',
     ''\<newline>'',
     ''                ''])\<close>

text \<open>
  \<^verbatim>\<open>random.choice(MODELS)\<close> is \<^verbatim>\<open>MODELS[randbelow(len(MODELS))]\<close>, where the generator
  gives an index below its argument; the model keeps the index in range by \<open>mod\<close>.
\<close>

definition extract_details :: "'w env \<Rightarrow> str \<Rightarrow> 'w state \<Rightarrow> (exn + str) \<times> 'w state" where
  "extract_details env text st =
     (let prompt = prompt_head @ text @ prompt_tail;
          (i, w1) = randbelow env (length MODELS) (world st);
          model = MODELS ! (i mod length MODELS)
      in case generate_content env model prompt w1 of
           (Inr response_text, w2) \<Rightarrow> (Inr (strip response_text), st\<lparr>world := w2\<rparr>)
         | (Inl (RequestException error), w2) \<Rightarrow>
             (Inr [],
              print (lit ''Error extracting details due to a request issue: '' @ error)
                (st\<lparr>world := w2\<rparr>))
         | (Inl (OtherException error), w2) \<Rightarrow>
             (Inl (OtherException error), st\<lparr>world := w2\<rparr>))"

subsection \<open>Orchestration\<close>

record result_record =
  URL :: str
  Extracted_Details :: str

text \<open>
  \<^verbatim>\<open>scrape_text(link) for link in relevant_pages\<close>, consumed by \<^verbatim>\<open>join\<close>: one call per
  link, in order; an exception ends the iteration.
\<close>

fun scrape_pages :: "'w env \<Rightarrow> str list \<Rightarrow> 'w state \<Rightarrow> (exn + str list) \<times> 'w state" where
  "scrape_pages env [] st = (Inr [], st)"
| "scrape_pages env (link # links) st =
     (case scrape_text env link st of
        (Inl error, st1) \<Rightarrow> (Inl error, st1)
      | (Inr text, st1) \<Rightarrow>
          (case scrape_pages env links st1 of
             (Inl error, st2) \<Rightarrow> (Inl error, st2)
           | (Inr texts, st2) \<Rightarrow> (Inr (text # texts), st2)))"

text \<open>
  Lines 139 and 140 of the loop body: the links of a site and the text that is handed
  to \<open>extract_details\<close>.
\<close>

definition combined_text :: "'w env \<Rightarrow> str \<Rightarrow> 'w state \<Rightarrow> (exn + str) \<times> 'w state" where
  "combined_text env url st =
     (case get_relevant_links env url st of
        (Inl error, st1) \<Rightarrow> (Inl error, st1)
      | (Inr relevant_pages, st1) \<Rightarrow>
          (case scrape_pages env relevant_pages st1 of
             (Inl error, st2) \<Rightarrow> (Inl error, st2)
           | (Inr texts, st2) \<Rightarrow> (Inr (join_space texts), st2)))"

text \<open>
  The loop of \<open>main\<close>. \<^verbatim>\<open>time.sleep(5)\<close> changes nothing that the model records.
\<close>

fun main_loop ::
  "'w env \<Rightarrow> str list \<Rightarrow> result_record list \<Rightarrow> 'w state
     \<Rightarrow> (exn + result_record list) \<times> 'w state" where
  "main_loop env [] results st = (Inr results, st)"
| "main_loop env (url # urls) results st =
     (case combined_text env url (print (lit ''Processing: '' @ url) st) of
        (Inl error, st1) \<Rightarrow> (Inl error, st1)
      | (Inr text, st1) \<Rightarrow>
          (case extract_details env text st1 of
             (Inl error, st2) \<Rightarrow> (Inl error, st2)
           | (Inr structured_data, st2) \<Rightarrow>
               main_loop env urls
                 (results @ [\<lparr>URL = url, Extracted_Details = structured_data\<rparr>]) st2))"

text \<open>
  The CSV records of \<^verbatim>\<open>pd.DataFrame(results)\<close> written with \<^verbatim>\<open>index=False\<close>, for a list
  of records with the keys \<^verbatim>\<open>URL\<close> and \<^verbatim>\<open>Extracted Details\<close>: the header first, each
  record a list of cells.
\<close>

definition csv_records :: "result_record list \<Rightarrow> str list list" where
  "csv_records results =
     [lit ''URL'', lit ''Extracted Details'']
       # map (\<lambda>r. [URL r, Extracted_Details r]) results"

text \<open>
  \<open>main\<close>. The file is written once, after the loop; \<open>csv_file\<close> holds its records when
  the write has succeeded. An exception of the write leaves \<open>main\<close> like any other.
\<close>

definition main :: "'w env \<Rightarrow> 'w state \<Rightarrow> (exn + unit) \<times> 'w state" where
  "main env st =
     (case main_loop env URLS [] st of
        (Inl error, st1) \<Rightarrow> (Inl error, st1)
      | (Inr results, st1) \<Rightarrow>
          (case to_csv env (lit ''extracted_company_details_1.csv'') (csv_records results)
                  (world st1) of
             (Some error, w) \<Rightarrow> (Inl error, st1\<lparr>world := w\<rparr>)
           | (None, w) \<Rightarrow>
               (Inr (),
                print (lit ''Data saved to extracted_company_details.csv'')
                  (st1\<lparr>world := w, csv_file := Some (csv_records results)\<rparr>))))"

subsection \<open>Notions used to state the properties\<close>

text \<open>The href values of the anchors of a page, in document order.\<close>

definition anchor_hrefs :: "node list \<Rightarrow> str list" where
  "anchor_hrefs soup =
     List.map_filter (\<lambda>n. get_attr n (lit ''href'')) (find_all_a_href soup)"

definition removed_tags :: "str list" where
  "removed_tags = [lit ''script'', lit ''style'', lit ''header'', lit ''footer'', lit ''nav'']"

text \<open>
  The specification's view of the visible text: every text node of the parsed page
  together with the names of the elements it lies in, innermost first; then the
  stripped, non-empty texts of those nodes that lie in no element of a removed kind.
\<close>

fun text_nodes :: "str list \<Rightarrow> node \<Rightarrow> (str list \<times> str) list" where
  "text_nodes ancestors (Text s) = [(ancestors, s)]"
| "text_nodes ancestors (Comment s) = []"
| "text_nodes ancestors (Element name attrs children) =
     concat (map (text_nodes (name # ancestors)) children)"

definition visible_strings :: "str list \<Rightarrow> node list \<Rightarrow> str list" where
  "visible_strings names soup =
     map (\<lambda>(ancestors, s). strip s)
       (filter (\<lambda>(ancestors, s). set ancestors \<inter> set names = {} \<and> strip s \<noteq> [])
          (concat (map (text_nodes []) soup)))"

text \<open>
  The specification's view of joining with single spaces: the first piece, then every
  further piece with one space before it.
\<close>

definition spaced :: "str list \<Rightarrow> str" where
  "spaced pieces =
     (case pieces of [] \<Rightarrow> [] | p # ps \<Rightarrow> p @ concat (map (\<lambda>q. 32 # q) ps))"

subsection \<open>A small web for the examples\<close>

text \<open>
  A homepage with five anchors, one of them inside a \<^verbatim>\<open>nav\<close> element and one without an
  href; a page with text inside and outside the removed kinds of element; a homepage
  with an href that holds U+2102, the double-struck capital C, an uppercase code point
  that has no lowercase form; and a homepage with an href that \<^verbatim>\<open>urljoin\<close> rejects.
\<close>

definition example_home :: "node list" where
  "example_home =
     [Element (lit ''nav'') Map.empty
        [Element (lit ''a'') [lit ''href'' \<mapsto> lit ''/About''] [Text (lit ''About'')]],
      Element (lit ''div'') Map.empty
        [Element (lit ''a'') [lit ''href'' \<mapsto> lit ''/investors''] [Text (lit ''Investors'')],
         Element (lit ''a'') [lit ''href'' \<mapsto> lit ''/about''] [Text (lit ''about us'')],
         Element (lit ''a'') [lit ''name'' \<mapsto> lit ''top''] [],
         Element (lit ''a'') [lit ''href'' \<mapsto> lit ''/Contact-Us''] [Text (lit ''Contact'')]]]"

definition example_page :: "node list" where
  "example_page =
     [Element (lit ''html'') Map.empty
        [Element (lit ''head'') Map.empty
           [Element (lit ''script'') Map.empty [Text (lit ''var x = 1;'')],
            Element (lit ''style'') Map.empty [Text (lit ''p { color: red }'')]],
         Element (lit ''body'') Map.empty
           [Element (lit ''header'') Map.empty [Text (lit ''Menu'')],
            Element (lit ''p'') Map.empty [Text (lit ''  We build  '')],
            Comment (lit ''banner''),
            Text (lit ''   ''),
            Element (lit ''div'') Map.empty
              [Element (lit ''nav'') Map.empty
                 [Element (lit ''p'') Map.empty [Text (lit ''Skip'')]],
               Text (lit ''laptops'')],
            Element (lit ''footer'') Map.empty [Text (lit ''Imprint'')]]]]"

definition unicode_home :: "node list" where
  "unicode_home =
     [Element (lit ''a'') [lit ''href'' \<mapsto> lit ''/About/'' @ [8450]] [Text (lit ''About'')]]"

definition bracket_home :: "node list" where
  "bracket_home =
     [Element (lit ''a'') [lit ''href'' \<mapsto> lit ''/about''] [Text (lit ''About'')],
      Element (lit ''a'') [lit ''href'' \<mapsto> lit ''//[about''] [Text (lit ''More'')]]"

text \<open>
  The world of the examples is the list of the prompts sent to the model so far. The
  homepage of the first seed URL and its about page are served, the contact page answers
  404, two further homepages are served, every other request fails to connect. The
  parser rejects a marked section that it cannot read. \<open>urljoin\<close> appends the href to
  the base, which is what the library does for a base without a path and an href that
  is an absolute path, and raises for an href that opens a bracketed host without
  closing it. Beyond Latin-1 the case tables know U+2102 only.
\<close>

definition example_get :: "str \<Rightarrow> str list \<Rightarrow> (exn + response) \<times> str list" where
  "example_get url w =
     (if url = lit ''https://lenovo.com'' then
        (Inr \<lparr>status_code = 200, reason = lit ''OK'', resp_url = url,
              resp_text = lit ''HOME''\<rparr>, w)
      else if url = lit ''https://lenovo.com/about'' then
        (Inr \<lparr>status_code = 200, reason = lit ''OK'', resp_url = url,
              resp_text = lit ''ABOUT''\<rparr>, w)
      else if url = lit ''https://lenovo.com/contact-us'' then
        (Inr \<lparr>status_code = 404, reason = lit ''Not Found'', resp_url = url,
              resp_text = lit ''''\<rparr>, w)
      else if url = lit ''https://example.org'' then
        (Inr \<lparr>status_code = 200, reason = lit ''OK'', resp_url = url,
              resp_text = lit ''UNICODE''\<rparr>, w)
      else if url = lit ''https://example.net'' then
        (Inr \<lparr>status_code = 200, reason = lit ''OK'', resp_url = url,
              resp_text = lit ''BRACKET''\<rparr>, w)
      else if url = lit ''https://example.com'' then
        (Inr \<lparr>status_code = 200, reason = lit ''OK'', resp_url = url,
              resp_text = lit ''<![foo]>''\<rparr>, w)
      else (Inl (RequestException (lit ''connection refused'')), w))"

definition example_parser :: "str \<Rightarrow> exn + node list" where
  "example_parser html =
     (if html = lit ''HOME'' then Inr example_home
      else if html = lit ''ABOUT'' then Inr example_page
      else if html = lit ''UNICODE'' then Inr unicode_home
      else if html = lit ''BRACKET'' then Inr bracket_home
      else if html = lit ''<![foo]>'' then
        Inl (OtherException (lit ''unknown status keyword 'foo' in marked section''))
      else Inr [])"

definition example_urljoin :: "str \<Rightarrow> str \<Rightarrow> exn + str" where
  "example_urljoin base href =
     (if prefix (lit ''//['') href then Inl (OtherException (lit ''Invalid IPv6 URL''))
      else Inr (base @ href))"

definition example_env :: "str list env" where
  "example_env =
     \<lparr>requests_get = example_get,
      BeautifulSoup = example_parser,
      urljoin = example_urljoin,
      str_lower = map (\<lambda>c. if c = 8450 then c else lower_latin1 c),
      str_isupper = (\<lambda>c. c = 8450),
      set_rank = (\<lambda>links link. 0),
      randbelow = (\<lambda>n w. (1, w)),
      generate_content = (\<lambda>model prompt w. (Inr (lit '' Founded in 1984  ''), w @ [prompt])),
      to_csv = (\<lambda>path records w. (None, w))\<rparr>"

text \<open>The same web with every page but the homepage unreachable.\<close>

definition unreachable_env :: "str list env" where
  "unreachable_env =
     example_env\<lparr>requests_get := (\<lambda>url w.
        if url = lit ''https://lenovo.com'' then example_get url w
        else (Inl (RequestException (lit ''connection refused'')), w))\<rparr>"

text \<open>The same web with a model client whose answer has no text.\<close>

definition broken_model_env :: "str list env" where
  "broken_model_env =
     example_env\<lparr>generate_content := (\<lambda>model prompt w.
        (Inl (OtherException (lit ''Invalid operation: response has no text'')),
         w @ [prompt]))\<rparr>"

text \<open>
  The same web with a model client that cannot reach its service and says so with an
  exception of \<^verbatim>\<open>requests\<close>.
\<close>

definition offline_model_env :: "str list env" where
  "offline_model_env =
     example_env\<lparr>generate_content := (\<lambda>model prompt w.
        (Inl (RequestException (lit ''connection reset'')), w @ [prompt]))\<rparr>"

text \<open>
  The same web with a model client that cannot reach its service and says so with its
  own exception, \<^verbatim>\<open>ServiceUnavailable\<close> of \<^verbatim>\<open>google.api_core.exceptions\<close>, as the
  \<^verbatim>\<open>google.generativeai\<close> client does.
\<close>

definition unavailable_model_env :: "str list env" where
  "unavailable_model_env =
     example_env\<lparr>generate_content := (\<lambda>model prompt w.
        (Inl (OtherException (lit ''503 The service is currently unavailable.'')),
         w @ [prompt]))\<rparr>"

definition initial_state :: "str list state" where
  "initial_state = \<lparr>world = [], stdout = [], csv_file = None\<rparr>"


subsection \<open>Auxiliary facts\<close>

lemma contains_iff_sublist: "contains s k \<longleftrightarrow> sublist k s"
  by (induction s) (auto simp: sublist_Cons_right)



lemma raise_for_status_error:
  "400 \<le> status_code r \<Longrightarrow> status_code r < 600 \<Longrightarrow>
     \<exists>msg. raise_for_status r = Some (RequestException msg)"
  by (auto simp: raise_for_status_def)

lemma get_checked_raise:
  "requests_get env url (world st) = (Inl e, w) \<Longrightarrow>
     get_checked env url st = (Inl e, st\<lparr>world := w\<rparr>)"
  by (simp add: get_checked_def)

lemma get_checked_status:
  "requests_get env url (world st) = (Inr r, w) \<Longrightarrow> raise_for_status r = Some e \<Longrightarrow>
     get_checked env url st = (Inl e, st\<lparr>world := w\<rparr>)"
  by (simp add: get_checked_def)

lemma links_loop_result:
  "links_loop env b anchors links st = (Inr out, st') \<Longrightarrow>
   \<exists>urls. out = links @ urls
     \<and> map (urljoin env b)
          (filter any_keyword
             (map (lower env) (List.map_filter (\<lambda>n. get_attr n (lit ''href'')) anchors)))
        = map Inr urls"
proof (induction anchors arbitrary: links st)
  case Nil
  then show ?case by simp
next
  case (Cons a anchors)
  from Cons.prems obtain v where v: "get_attr a (lit ''href'') = Some v"
    by (cases "get_attr a (lit ''href'')") auto
  show ?case
  proof (cases "any_keyword (lower env v)")
    case False
    with Cons.prems v have "links_loop env b anchors links st = (Inr out, st')"
      by (simp add: Let_def)
    from Cons.IH[OF this] show ?thesis using v False by simp
  next
    case True
    with Cons.prems v obtain u where u: "urljoin env b (lower env v) = Inr u"
      by (cases "urljoin env b (lower env v)") (auto simp: Let_def)
    with Cons.prems v True have "links_loop env b anchors (links @ [u])
        (print (lit ''Found relevant link: '' @ u) st) = (Inr out, st')"
      by (simp add: Let_def)
    from Cons.IH[OF this] obtain urls where
      "out = (links @ [u]) @ urls"
      "map (urljoin env b)
          (filter any_keyword
             (map (lower env) (List.map_filter (\<lambda>n. get_attr n (lit ''href'')) anchors)))
        = map Inr urls"
      by blast
    then have "out = links @ (u # urls) \<and> map (urljoin env b)
          (filter any_keyword
             (map (lower env) (List.map_filter (\<lambda>n. get_attr n (lit ''href'')) (a # anchors))))
        = map Inr (u # urls)"
      using v True u by simp
    then show ?thesis by blast
  qed
qed

lemma get_relevant_links_result:
  "get_checked env b st = (Inr response, st1) \<Longrightarrow>
   BeautifulSoup env (resp_text response) = Inr soup \<Longrightarrow>
   get_relevant_links env b st = (Inr links, st') \<Longrightarrow>
   \<exists>urls. links = list_of_set env urls
     \<and> map (urljoin env b) (filter any_keyword (map (lower env) (anchor_hrefs soup)))
        = map Inr urls"
proof -
  assume ok: "get_checked env b st = (Inr response, st1)"
    and soup: "BeautifulSoup env (resp_text response) = Inr soup"
    and ret: "get_relevant_links env b st = (Inr links, st')"
  from ok soup ret obtain out where
    loop: "links_loop env b (find_all_a_href soup) [] st1 = (Inr out, st')"
    and l: "links = list_of_set env out"
    by (auto simp: get_relevant_links_def split: prod.splits sum.splits)
  from links_loop_result[OF loop] l show ?thesis
    by (auto simp: anchor_hrefs_def)
qed

lemma joined_member:
  "map f xs = map Inr ys \<Longrightarrow> x \<in> set xs \<Longrightarrow> \<exists>y. f x = Inr y \<and> y \<in> set ys"
proof (induction xs arbitrary: ys)
  case Nil
  then show ?case by simp
next
  case (Cons a xs)
  then obtain y ys' where "ys = y # ys'" by (cases ys) auto
  with Cons show ?case by auto
qed


lemma set_list_of_set: "set (list_of_set env links) = set links"
  by (simp add: list_of_set_def)

lemma distinct_list_of_set: "distinct (list_of_set env links)"
  by (simp add: list_of_set_def)

lemma count_list_distinct: "distinct xs \<Longrightarrow> x \<in> set xs \<Longrightarrow> count_list xs x = 1"
  by (induction xs) (auto simp: count_list_0_iff)

lemma get_relevant_links_request_error:
  "get_checked env b st = (Inl (RequestException msg), st1) \<Longrightarrow>
   get_relevant_links env b st =
     (Inr [], print (lit ''Error fetching '' @ b @ lit '': '' @ msg) st1)"
  by (simp add: get_relevant_links_def)

lemma scrape_text_request_error:
  "get_checked env b st = (Inl (RequestException msg), st1) \<Longrightarrow>
   scrape_text env b st = (Inr [], print (lit ''Error scraping '' @ b @ lit '': '' @ msg) st1)"
  by (simp add: scrape_text_def)

lemma join_space_empty: "join_space (replicate n []) = replicate (n - 1) 32"
proof (induction n)
  case 0
  show ?case by simp
next
  case (Suc n)
  show ?case
  proof (cases n)
    case 0
    then show ?thesis by simp
  next
    case (Suc m)
    with Suc.IH show ?thesis by (simp add: lit_def)
  qed
qed

lemma all_empty_replicate: "\<forall>x \<in> set xs. x = [] \<Longrightarrow> xs = replicate (length xs) []"
  by (induction xs) simp_all

lemma scrape_pages_length:
  "scrape_pages env links st = (Inr texts, st') \<Longrightarrow> length texts = length links"
  by (induction links arbitrary: st texts) (auto split: prod.splits sum.splits)

lemma extract_details_raises_from_model:
  "extract_details env text st = (Inl error, st') \<Longrightarrow>
   \<exists>i w1 w2. randbelow env (length MODELS) (world st) = (i, w1)
     \<and> generate_content env (MODELS ! (i mod length MODELS))
          (prompt_head @ text @ prompt_tail) w1 = (Inl error, w2)"
  by (auto simp: extract_details_def Let_def split: prod.splits sum.splits exn.splits)

lemma concat_map_over_concat:
  "concat (map f (concat xss)) = concat (map (\<lambda>xs. concat (map f xs)) xss)"
  by (induction xss) simp_all

lemma soup_descendants_append:
  "soup_descendants (xs @ ys) = soup_descendants xs @ soup_descendants ys"
  by (simp add: soup_descendants_def)

lemma soup_descendants_concat:
  "soup_descendants (concat xss) = concat (map soup_descendants xss)"
  by (induction xss) (simp_all add: soup_descendants_append, simp add: soup_descendants_def)

lemma text_nodes_ancestors:
  "(a, s) \<in> set (text_nodes anc n) \<Longrightarrow> set anc \<subseteq> set a"
proof (induction n arbitrary: anc)
  case (Element name attrs children)
  then show ?case by fastforce
qed auto

lemma stripped_extract_tags:
  "set anc \<inter> set names = {} \<Longrightarrow>
   concat (map stripped_string (soup_descendants (extract_tags names n))) =
     map (\<lambda>(ancestors, s). strip s)
       (filter (\<lambda>(ancestors, s). set ancestors \<inter> set names = {} \<and> strip s \<noteq> [])
          (text_nodes anc n))"
proof (induction n arbitrary: anc)
  case (Text s)
  then show ?case by (simp add: soup_descendants_def)
next
  case (Comment s)
  then show ?case by (simp add: soup_descendants_def)
next
  case (Element name attrs children)
  show ?case
  proof (cases "name \<in> set names")
    case True
    have "\<And>a s. (a, s) \<in> set (text_nodes anc (Element name attrs children)) \<Longrightarrow>
        set a \<inter> set names \<noteq> {}"
    proof -
      fix a s assume "(a, s) \<in> set (text_nodes anc (Element name attrs children))"
      then obtain c where "c \<in> set children" "(a, s) \<in> set (text_nodes (name # anc) c)"
        by auto
      then have "name \<in> set a" using text_nodes_ancestors by fastforce
      with True show "set a \<inter> set names \<noteq> {}" by auto
    qed
    then have "filter (\<lambda>(ancestors, s). set ancestors \<inter> set names = {} \<and> strip s \<noteq> [])
          (text_nodes anc (Element name attrs children)) = []"
      by (auto simp: filter_empty_conv simp del: text_nodes.simps)
    with True show ?thesis by (simp add: soup_descendants_def)
  next
    case False
    with Element.prems have disj: "set (name # anc) \<inter> set names = {}" by auto
    have ih: "\<And>c. c \<in> set children \<Longrightarrow>
        concat (map stripped_string (soup_descendants (extract_tags names c))) =
          map (\<lambda>(ancestors, s). strip s)
            (filter (\<lambda>(ancestors, s). set ancestors \<inter> set names = {} \<and> strip s \<noteq> [])
              (text_nodes (name # anc) c))"
      using Element.IH[OF _ disj] by blast
    have "concat (map stripped_string (soup_descendants (extract_tags names
        (Element name attrs children)))) =
      concat (map stripped_string
        (soup_descendants (concat (map (extract_tags names) children))))"
      using False by (simp add: soup_descendants_def)
    also have "\<dots> = concat (map (\<lambda>c. concat (map stripped_string
        (soup_descendants (extract_tags names c)))) children)"
      by (simp add: soup_descendants_concat concat_map_over_concat o_def)
    also have "\<dots> = concat (map (\<lambda>c. map (\<lambda>(ancestors, s). strip s)
            (filter (\<lambda>(ancestors, s). set ancestors \<inter> set names = {} \<and> strip s \<noteq> [])
              (text_nodes (name # anc) c))) children)"
      using ih by (auto intro: arg_cong[where f=concat])
    also have "\<dots> = map (\<lambda>(ancestors, s). strip s)
       (filter (\<lambda>(ancestors, s). set ancestors \<inter> set names = {} \<and> strip s \<noteq> [])
          (text_nodes anc (Element name attrs children)))"
      by (simp add: map_concat filter_concat o_def)
    finally show ?thesis .
  qed
qed

lemma stripped_strings_extract_all:
  "stripped_strings (extract_all names soup) = visible_strings names soup"
proof -
  have "stripped_strings (extract_all names soup) =
      concat (map (\<lambda>n. concat (map stripped_string (soup_descendants (extract_tags names n)))) soup)"
    by (simp add: stripped_strings_def extract_all_def soup_descendants_concat
        concat_map_over_concat o_def)
  also have "\<dots> = concat (map (\<lambda>n. map (\<lambda>(ancestors, s). strip s)
       (filter (\<lambda>(ancestors, s). set ancestors \<inter> set names = {} \<and> strip s \<noteq> [])
          (text_nodes [] n))) soup)"
    using stripped_extract_tags[of "[]" names] by simp
  also have "\<dots> = visible_strings names soup"
    by (simp add: visible_strings_def map_concat filter_concat o_def)
  finally show ?thesis .
qed

lemma join_space_spaced: "join_space pieces = spaced pieces"
proof (induction pieces rule: join_space.induct)
  case 1
  show ?case by (simp add: spaced_def)
next
  case (2 x)
  show ?case by (simp add: spaced_def)
next
  case (3 x y ys)
  then show ?case by (simp add: spaced_def lit_def)
qed

lemma strip_split:
  "\<exists>pre post. s = pre @ strip s @ post \<and> list_all is_space pre \<and> list_all is_space post"
proof -
  define d where "d = dropWhile is_space s"
  have s: "s = takeWhile is_space s @ d" by (simp add: d_def)
  have "rev (takeWhile is_space (rev d) @ dropWhile is_space (rev d)) = rev (rev d)"
    by (simp only: takeWhile_dropWhile_id)
  then have "rev (dropWhile is_space (rev d)) @ rev (takeWhile is_space (rev d)) = d"
    by (simp only: rev_append rev_rev_ident)
  then have d: "d = strip s @ rev (takeWhile is_space (rev d))"
    by (simp add: strip_def d_def)
  have p1: "list_all is_space (takeWhile is_space s)"
    by (auto simp: list_all_iff dest: set_takeWhileD)
  have p2: "list_all is_space (rev (takeWhile is_space (rev d)))"
    by (auto simp: list_all_iff dest: set_takeWhileD)
  from s d have "s = takeWhile is_space s @ strip s @ rev (takeWhile is_space (rev d))"
    by simp
  with p1 p2 show ?thesis by blast
qed

lemma strip_ends:
  "strip s \<noteq> [] \<Longrightarrow> \<not> is_space (hd (strip s)) \<and> \<not> is_space (last (strip s))"
proof -
  assume ne: "strip s \<noteq> []"
  define d where "d = dropWhile is_space s"
  define e where "e = dropWhile is_space (rev d)"
  have st: "strip s = rev e" by (simp add: strip_def d_def e_def)
  with ne have e: "e \<noteq> []" by simp
  then have dne: "d \<noteq> []" by (auto simp: e_def)
  have "\<not> is_space (hd e)" using e unfolding e_def by (rule hd_dropWhile)
  then have l: "\<not> is_space (last (strip s))" using e by (simp add: st last_rev)
  have "last e = last (rev d)"
    using e unfolding e_def by (metis append_Nil2 last_appendR takeWhile_dropWhile_id)
  then have "hd (strip s) = hd d" using e dne by (simp add: st hd_rev last_rev)
  moreover have "\<not> is_space (hd d)" using dne unfolding d_def by (rule hd_dropWhile)
  ultimately show ?thesis using l by simp
qed



subsection \<open>The example web, evaluated\<close>

lemmas eval_defs =
  lit_def example_env_def example_get_def example_parser_def example_urljoin_def
  example_home_def example_page_def unicode_home_def bracket_home_def
  unreachable_env_def broken_model_env_def offline_model_env_def unavailable_model_env_def
  initial_state_def get_checked_def raise_for_status_def print_def
  get_relevant_links_def find_all_a_href_def soup_descendants_def list_of_set_def
  lower_def lower_latin1_def isupper_latin1_def any_keyword_def RELEVANT_LINKS_def
  scrape_text_def extract_all_def stripped_strings_def strip_def is_space_def
  combined_text_def extract_details_def MODELS_def Let_def

lemma str_nat_404: "str_nat 404 = lit ''404''"
  by code_simp

lemma example_about_fetched:
  "get_checked example_env (lit ''https://lenovo.com/about'') st =
     (Inr \<lparr>status_code = 200, reason = lit ''OK'', resp_url = lit ''https://lenovo.com/about'',
           resp_text = lit ''ABOUT''\<rparr>, st)"
  by (simp add: eval_defs)

lemma example_page_parsed: "BeautifulSoup example_env (lit ''ABOUT'') = Inr example_page"
  by (simp add: example_env_def example_parser_def lit_def)

lemma example_about_scraped:
  "scrape_text example_env (lit ''https://lenovo.com/about'') st =
     (Inr (lit ''We build laptops''), st)"
  by (simp add: eval_defs)

lemma unreachable_home_links:
  "get_relevant_links unreachable_env (lit ''https://lenovo.com'') st =
     (Inr [lit ''https://lenovo.com/about'', lit ''https://lenovo.com/contact-us''],
      st\<lparr>stdout := stdout st @
        [lit ''Found relevant link: https://lenovo.com/about'',
         lit ''Found relevant link: https://lenovo.com/about'',
         lit ''Found relevant link: https://lenovo.com/contact-us'']\<rparr>)"
  by (simp add: eval_defs)

lemma unreachable_pages:
  "scrape_pages unreachable_env
     [lit ''https://lenovo.com/about'', lit ''https://lenovo.com/contact-us''] st =
     (Inr [lit '''', lit ''''],
      st\<lparr>stdout := stdout st @
        [lit ''Error scraping https://lenovo.com/about: connection refused'',
         lit ''Error scraping https://lenovo.com/contact-us: connection refused'']\<rparr>)"
  by (simp add: eval_defs)

lemma example_page_visible:
  "visible_strings removed_tags example_page = [lit ''We build'', lit ''laptops'']"
  by (simp add: visible_strings_def removed_tags_def example_page_def strip_def is_space_def
      lit_def)

lemma example_home_fetched:
  "get_checked example_env (lit ''https://lenovo.com'') st =
     (Inr \<lparr>status_code = 200, reason = lit ''OK'', resp_url = lit ''https://lenovo.com'',
           resp_text = lit ''HOME''\<rparr>, st)"
  by (simp add: eval_defs)

lemma example_home_parsed:
  "BeautifulSoup example_env
     (resp_text \<lparr>status_code = 200, reason = lit ''OK'', resp_url = lit ''https://lenovo.com'',
           resp_text = lit ''HOME''\<rparr>) = Inr example_home"
  by (simp add: eval_defs)

lemma example_home_hrefs:
  "anchor_hrefs example_home =
     [lit ''/About'', lit ''/investors'', lit ''/about'', lit ''/Contact-Us'']"
  by (simp add: anchor_hrefs_def eval_defs)

lemma example_home_links:
  "get_relevant_links example_env (lit ''https://lenovo.com'') st =
     (Inr [lit ''https://lenovo.com/about'', lit ''https://lenovo.com/contact-us''],
      st\<lparr>stdout := stdout st @
        [lit ''Found relevant link: https://lenovo.com/about'',
         lit ''Found relevant link: https://lenovo.com/about'',
         lit ''Found relevant link: https://lenovo.com/contact-us'']\<rparr>)"
  by (simp add: eval_defs)

lemma example_lower:
  "lower example_env (lit ''/About'') = lit ''/about''"
  "lower example_env (lit ''/about'') = lit ''/about''"
  "lower example_env (lit ''/investors'') = lit ''/investors''"
  "lower example_env (lit ''/Contact-Us'') = lit ''/contact-us''"
  "lower example_env (lit ''Investors'') = lit ''investors''"
  "lower example_env (lit ''about'') = lit ''about''"
  "lower example_env (lit ''contact'') = lit ''contact''"
  "lower example_env (lit ''/About/'' @ [8450]) = lit ''/about/'' @ [8450]"
  by (simp_all add: eval_defs)

lemma example_any_keyword:
  "any_keyword (lit ''/about'')" "\<not> any_keyword (lit ''/investors'')"
  "any_keyword (lit ''/contact-us'')" "any_keyword (lit ''/about/'' @ [8450])"
  by (simp_all add: eval_defs)

lemma example_urljoin_values:
  "urljoin example_env (lit ''https://lenovo.com'') (lit ''/about'')
     = Inr (lit ''https://lenovo.com/about'')"
  "urljoin example_env (lit ''https://lenovo.com'') (lit ''/About'')
     = Inr (lit ''https://lenovo.com/About'')"
  "urljoin example_env (lit ''https://lenovo.com'') (lit ''/investors'')
     = Inr (lit ''https://lenovo.com/investors'')"
  "urljoin example_env (lit ''https://lenovo.com'') (lit ''/contact-us'')
     = Inr (lit ''https://lenovo.com/contact-us'')"
  "urljoin example_env (lit ''https://example.net'') (lit ''//[about'')
     = Inl (OtherException (lit ''Invalid IPv6 URL''))"
  by (simp_all add: eval_defs)

lemma bracket_home_raises:
  "get_relevant_links example_env (lit ''https://example.net'') st =
     (Inl (OtherException (lit ''Invalid IPv6 URL'')),
      st\<lparr>stdout := stdout st @ [lit ''Found relevant link: https://example.net/about'']\<rparr>)"
  by (simp add: eval_defs)

lemma bracket_home_hrefs: "anchor_hrefs bracket_home = [lit ''/about'', lit ''//[about'']"
  by (simp add: anchor_hrefs_def eval_defs)

lemma example_sublists:
  "sublist (lit ''investors'') (lit ''/investors'')"
  "sublist (lit ''about'') (lit ''/about'')"
  "sublist (lit ''about'') (lit ''//[about'')"
  "sublist (lit ''contact'') (lit ''/contact-us'')"
  by (simp_all add: contains_iff_sublist[symmetric] lit_def)

lemma example_lower_bracket:
  "lower example_env (lit ''//[about'') = lit ''//[about''"
  by (simp add: eval_defs)






lemma unavailable_model_extract:
  "extract_details unavailable_model_env (lit ''We build laptops'') initial_state =
     (Inl (OtherException (lit ''503 The service is currently unavailable.'')),
      \<lparr>world = [prompt_head @ lit ''We build laptops'' @ prompt_tail],
       stdout = [], csv_file = None\<rparr>)"
  by (simp add: eval_defs)

lemma offline_model_extract:
  "extract_details offline_model_env (lit ''We build laptops'') initial_state =
     (Inr (lit ''''),
      \<lparr>world = [prompt_head @ lit ''We build laptops'' @ prompt_tail],
       stdout = [lit ''Error extracting details due to a request issue: connection reset''],
       csv_file = None\<rparr>)"
  by (simp add: eval_defs)

lemma unavailable_model_main:
  "fst (main unavailable_model_env initial_state) =
       Inl (OtherException (lit ''503 The service is currently unavailable.''))
   \<and> csv_file (snd (main unavailable_model_env initial_state)) = None"
  by (simp add: main_def URLS_def eval_defs str_nat_404[unfolded lit_def, simplified])

subsection \<open>Which anchors link discovery keeps\<close>

text \<open>
  Claim C1 says that an anchor whose href contains, ignoring letter case, any keyword of
  the list has the URL resolved from its href in the sequence that is returned. Three
  anchors of the example web show that this is not what the code does. The href
  \<^verbatim>\<open>/investors\<close> contains the keyword \<^verbatim>\<open>Investors\<close> up to letter case, but the code looks
  for the keyword as it is written, capital letter included, in the lowercased href, so
  the anchor is dropped. The href \<^verbatim>\<open>/About\<close> matches, but the URL in the result is
  resolved from \<^verbatim>\<open>/about\<close>, not from \<^verbatim>\<open>/About\<close>. The href \<^verbatim>\<open>//[about\<close> matches, and
  \<^verbatim>\<open>urljoin\<close> raises \<^verbatim>\<open>ValueError\<close> for it outside the \<^verbatim>\<open>try\<close> block: the call returns no
  sequence at all.
\<close>

theorem keyword_match_counterexample:
  "fst (get_relevant_links example_env (lit ''https://lenovo.com'') initial_state) =
     Inr [lit ''https://lenovo.com/about'', lit ''https://lenovo.com/contact-us'']
   \<and> lit ''/investors'' \<in> set (anchor_hrefs example_home)
   \<and> lit ''Investors'' \<in> set RELEVANT_LINKS
   \<and> sublist (lower example_env (lit ''Investors'')) (lower example_env (lit ''/investors''))
   \<and> urljoin example_env (lit ''https://lenovo.com'') (lit ''/investors'')
        = Inr (lit ''https://lenovo.com/investors'')
   \<and> lit ''https://lenovo.com/investors''
        \<notin> set [lit ''https://lenovo.com/about'', lit ''https://lenovo.com/contact-us'']
   \<and> lit ''/About'' \<in> set (anchor_hrefs example_home)
   \<and> lit ''about'' \<in> set RELEVANT_LINKS
   \<and> sublist (lower example_env (lit ''about'')) (lower example_env (lit ''/About''))
   \<and> urljoin example_env (lit ''https://lenovo.com'') (lit ''/About'')
        = Inr (lit ''https://lenovo.com/About'')
   \<and> lit ''https://lenovo.com/About''
        \<notin> set [lit ''https://lenovo.com/about'', lit ''https://lenovo.com/contact-us'']
   \<and> lit ''//[about'' \<in> set (anchor_hrefs bracket_home)
   \<and> sublist (lower example_env (lit ''about'')) (lower example_env (lit ''//[about''))
   \<and> fst (get_relevant_links example_env (lit ''https://example.net'') initial_state) =
     Inl (OtherException (lit ''Invalid IPv6 URL''))"
proof -
  have "lit ''https://lenovo.com/investors''
        \<notin> set [lit ''https://lenovo.com/about'', lit ''https://lenovo.com/contact-us'']"
    "lit ''https://lenovo.com/About''
        \<notin> set [lit ''https://lenovo.com/about'', lit ''https://lenovo.com/contact-us'']"
    "lit ''Investors'' \<in> set RELEVANT_LINKS" "lit ''about'' \<in> set RELEVANT_LINKS"
    by (simp_all add: lit_def RELEVANT_LINKS_def)
  then show ?thesis
    by (simp add: example_home_links example_home_hrefs bracket_home_hrefs bracket_home_raises
        example_lower example_lower_bracket example_sublists example_urljoin_values)
qed

text \<open>
  Claim C1, amended. For a homepage that was fetched and parsed, and an anchor whose
  href contains, ignoring letter case, a keyword of the list that is written in lower
  case (\<^verbatim>\<open>home\<close>, \<^verbatim>\<open>about\<close>, \<^verbatim>\<open>contact\<close>, \<^verbatim>\<open>services\<close>, \<^verbatim>\<open>products\<close>): every sequence
  that \<open>get_relevant_links\<close> returns holds the URL resolved from the lowercased href.
\<close>

theorem get_relevant_links_finds_lowercase_keywords:
  "get_checked env base_url st = (Inr response, st1) \<Longrightarrow>
   BeautifulSoup env (resp_text response) = Inr soup \<Longrightarrow>
   get_relevant_links env base_url st = (Inr links, st') \<Longrightarrow>
   href \<in> set (anchor_hrefs soup) \<Longrightarrow>
   keyword \<in> set RELEVANT_LINKS \<Longrightarrow>
   lower env keyword = keyword \<Longrightarrow>
   sublist (lower env keyword) (lower env href) \<Longrightarrow>
   \<exists>url. urljoin env base_url (lower env href) = Inr url \<and> url \<in> set links"
proof -
  assume ok: "get_checked env base_url st = (Inr response, st1)"
    and soup: "BeautifulSoup env (resp_text response) = Inr soup"
    and ret: "get_relevant_links env base_url st = (Inr links, st')"
    and h: "href \<in> set (anchor_hrefs soup)"
    and k: "keyword \<in> set RELEVANT_LINKS" "lower env keyword = keyword"
    and s: "sublist (lower env keyword) (lower env href)"
  from get_relevant_links_result[OF ok soup ret] obtain urls where
    l: "links = list_of_set env urls"
    and j: "map (urljoin env base_url)
        (filter any_keyword (map (lower env) (anchor_hrefs soup))) = map Inr urls"
    by blast
  from k s have "any_keyword (lower env href)"
    by (auto simp: any_keyword_def list_ex_iff contains_iff_sublist)
  with h have "lower env href \<in> set (filter any_keyword (map (lower env) (anchor_hrefs soup)))"
    by simp
  from joined_member[OF j this] l show ?thesis by (auto simp: set_list_of_set)
qed

theorem get_relevant_links_finds_lowercase_keywords_witness:
  "\<exists>url. urljoin example_env (lit ''https://lenovo.com'') (lower example_env (lit ''/Contact-Us''))
       = Inr url
     \<and> url \<in> set [lit ''https://lenovo.com/about'', lit ''https://lenovo.com/contact-us'']"
proof -
  have h: "lit ''/Contact-Us'' \<in> set (anchor_hrefs example_home)"
    by (simp add: example_home_hrefs)
  have k: "lit ''contact'' \<in> set RELEVANT_LINKS" by (simp add: RELEVANT_LINKS_def)
  have l: "lower example_env (lit ''contact'') = lit ''contact''" by (rule example_lower)
  have s: "sublist (lower example_env (lit ''contact'')) (lower example_env (lit ''/Contact-Us''))"
    by (simp add: example_lower example_sublists)
  from get_relevant_links_finds_lowercase_keywords[OF example_home_fetched[of initial_state]
      example_home_parsed example_home_links[of initial_state] h k l s]
  show ?thesis .
qed

subsection \<open>The text handed to extraction when every page fails\<close>

text \<open>
  Claim C2 says that \<open>extract_details\<close> receives the empty string when every page of a
  site fails to scrape. In the web where only the homepage can be reached, two pages are
  discovered and both calls of \<open>scrape_text\<close> return the empty string; joining two
  empty strings with a space gives one space, and the prompt sent to the model embeds
  that space, not the empty string.
\<close>

theorem all_pages_failed_counterexample:
  "fst (get_relevant_links unreachable_env (lit ''https://lenovo.com'')
          (print (lit ''Processing: https://lenovo.com'') initial_state)) =
     Inr [lit ''https://lenovo.com/about'', lit ''https://lenovo.com/contact-us'']
   \<and> fst (scrape_text unreachable_env (lit ''https://lenovo.com/about'') initial_state)
       = Inr (lit '''')
   \<and> fst (scrape_text unreachable_env (lit ''https://lenovo.com/contact-us'') initial_state)
       = Inr (lit '''')
   \<and> fst (combined_text unreachable_env (lit ''https://lenovo.com'')
          (print (lit ''Processing: https://lenovo.com'') initial_state)) = Inr (lit '' '')
   \<and> world (snd (main_loop unreachable_env [lit ''https://lenovo.com''] [] initial_state)) =
       [prompt_head @ lit '' '' @ prompt_tail]
   \<and> prompt_head @ lit '' '' @ prompt_tail \<noteq> prompt_head @ lit '''' @ prompt_tail"
  by (simp add: eval_defs)

text \<open>
  Claim C2, amended. When every call of \<open>scrape_text\<close> for the discovered pages of a site
  returns the empty string, \<open>extract_details\<close> is called with one space (code point 32)
  fewer than there are pages (the empty string for no page or one page), and the loop
  goes on with what it returns. \<open>extract_details\<close> does not inspect its argument: an
  exception leaves it only when the call of the model raised that exception.
\<close>

theorem all_pages_failed_text:
  "get_relevant_links env url (print (lit ''Processing: '' @ url) st) = (Inr relevant_pages, st1) \<Longrightarrow>
   scrape_pages env relevant_pages st1 = (Inr texts, st2) \<Longrightarrow>
   \<forall>text \<in> set texts. text = [] \<Longrightarrow>
   main_loop env (url # urls) results st =
     (case extract_details env (replicate (length relevant_pages - 1) 32) st2 of
        (Inl error, st3) \<Rightarrow> (Inl error, st3)
      | (Inr structured_data, st3) \<Rightarrow>
          main_loop env urls
            (results @ [\<lparr>URL = url, Extracted_Details = structured_data\<rparr>]) st3)
   \<and> (\<forall>error st3.
         extract_details env (replicate (length relevant_pages - 1) 32) st2
           = (Inl error, st3) \<longrightarrow>
         (\<exists>i w1 w2. randbelow env (length MODELS) (world st2) = (i, w1)
            \<and> generate_content env (MODELS ! (i mod length MODELS))
                 (prompt_head @ replicate (length relevant_pages - 1) 32 @ prompt_tail) w1
               = (Inl error, w2)))"
proof -
  assume links: "get_relevant_links env url (print (lit ''Processing: '' @ url) st)
      = (Inr relevant_pages, st1)"
    and pages: "scrape_pages env relevant_pages st1 = (Inr texts, st2)"
    and failed: "\<forall>text \<in> set texts. text = []"
  from failed have "texts = replicate (length texts) []" by (rule all_empty_replicate)
  with scrape_pages_length[OF pages] have "texts = replicate (length relevant_pages) []"
    by simp
  then have "join_space texts = replicate (length relevant_pages - 1) 32"
    by (simp add: join_space_empty)
  with links pages have "combined_text env url (print (lit ''Processing: '' @ url) st) =
      (Inr (replicate (length relevant_pages - 1) 32), st2)"
    by (simp add: combined_text_def)
  then have "main_loop env (url # urls) results st =
     (case extract_details env (replicate (length relevant_pages - 1) 32) st2 of
        (Inl error, st3) \<Rightarrow> (Inl error, st3)
      | (Inr structured_data, st3) \<Rightarrow>
          main_loop env urls
            (results @ [\<lparr>URL = url, Extracted_Details = structured_data\<rparr>]) st3)"
    by simp
  then show ?thesis using extract_details_raises_from_model by blast
qed

theorem all_pages_failed_text_witness:
  "main_loop unreachable_env [lit ''https://lenovo.com''] [] initial_state =
     (case extract_details unreachable_env (lit '' '')
        (initial_state\<lparr>stdout :=
          [lit ''Processing: https://lenovo.com'',
           lit ''Found relevant link: https://lenovo.com/about'',
           lit ''Found relevant link: https://lenovo.com/about'',
           lit ''Found relevant link: https://lenovo.com/contact-us'',
           lit ''Error scraping https://lenovo.com/about: connection refused'',
           lit ''Error scraping https://lenovo.com/contact-us: connection refused'']\<rparr>) of
        (Inl error, st3) \<Rightarrow> (Inl error, st3)
      | (Inr structured_data, st3) \<Rightarrow>
          main_loop unreachable_env []
            ([] @ [\<lparr>URL = lit ''https://lenovo.com'', Extracted_Details = structured_data\<rparr>])
            st3)"
proof -
  have f: "\<forall>text \<in> set [lit '''', lit '''']. text = []" by (simp add: lit_def)
  from all_pages_failed_text[where st = initial_state and urls = "[]" and results = "[]",
      OF unreachable_home_links unreachable_pages f]
  show ?thesis by (simp add: print_def initial_state_def lit_def del: main_loop.simps)
qed

subsection \<open>The CSV file written by main\<close>





subsection \<open>The length of the scraped text\<close>

text \<open>
  Claim C4. Whatever the URL and whatever the fetched response, a string returned by
  \<open>scrape_text\<close> has at most 1000 characters.
\<close>

theorem scrape_text_length:
  "scrape_text env url st = (Inr text, st') \<Longrightarrow> length text \<le> 1000"
  by (auto simp: scrape_text_def Let_def split: prod.splits sum.splits exn.splits)

theorem scrape_text_length_witness:
  "scrape_text example_env (lit ''https://lenovo.com/about'') initial_state =
     (Inr (lit ''We build laptops''), initial_state) \<and> length (lit ''We build laptops'') \<le> 1000"
  using scrape_text_length[OF example_about_scraped] example_about_scraped by simp

subsection \<open>What the scraped text is made of\<close>

text \<open>
  Claim C5. For a page that was fetched and parsed, \<open>scrape_text\<close> returns the first 1000
  characters of the visible pieces joined with single spaces: the first piece, then each
  further piece with one space before it. The visible pieces come, in document order,
  from the text nodes that lie in no \<^verbatim>\<open>script\<close>, \<^verbatim>\<open>style\<close>, \<^verbatim>\<open>header\<close>, \<^verbatim>\<open>footer\<close> or
  \<^verbatim>\<open>nav\<close> element, at any depth: each piece is the text of such a node without the
  whitespace around it, and it is not empty. No text from inside an element of those
  five kinds takes part in the result.
\<close>

theorem scrape_text_visible_text:
  "get_checked env url st = (Inr response, st1) \<Longrightarrow>
   BeautifulSoup env (resp_text response) = Inr soup \<Longrightarrow>
   scrape_text env url st =
     (Inr (take 1000 (spaced (visible_strings removed_tags soup))), st1)
   \<and> (\<forall>piece \<in> set (visible_strings removed_tags soup).
         \<exists>ancestors s pre post.
           (ancestors, s) \<in> set (concat (map (text_nodes []) soup))
           \<and> set ancestors \<inter> set removed_tags = {}
           \<and> s = pre @ piece @ post
           \<and> list_all is_space pre \<and> list_all is_space post
           \<and> piece \<noteq> [] \<and> \<not> is_space (hd piece) \<and> \<not> is_space (last piece))"
proof
  assume ok: "get_checked env url st = (Inr response, st1)"
    and soup: "BeautifulSoup env (resp_text response) = Inr soup"
  then show "scrape_text env url st =
     (Inr (take 1000 (spaced (visible_strings removed_tags soup))), st1)"
    by (simp add: scrape_text_def stripped_strings_extract_all join_space_spaced
        removed_tags_def)
  show "\<forall>piece \<in> set (visible_strings removed_tags soup).
         \<exists>ancestors s pre post.
           (ancestors, s) \<in> set (concat (map (text_nodes []) soup))
           \<and> set ancestors \<inter> set removed_tags = {}
           \<and> s = pre @ piece @ post
           \<and> list_all is_space pre \<and> list_all is_space post
           \<and> piece \<noteq> [] \<and> \<not> is_space (hd piece) \<and> \<not> is_space (last piece)"
  proof
    fix piece assume "piece \<in> set (visible_strings removed_tags soup)"
    then obtain ancestors s where
      n: "(ancestors, s) \<in> set (concat (map (text_nodes []) soup))"
      and d: "set ancestors \<inter> set removed_tags = {}"
      and p: "piece = strip s" and ne: "strip s \<noteq> []"
      by (auto simp: visible_strings_def)
    from strip_split[of s] obtain pre post where
      "s = pre @ strip s @ post" "list_all is_space pre" "list_all is_space post" by blast
    with n d p ne strip_ends[OF ne] show "\<exists>ancestors s pre post.
           (ancestors, s) \<in> set (concat (map (text_nodes []) soup))
           \<and> set ancestors \<inter> set removed_tags = {}
           \<and> s = pre @ piece @ post
           \<and> list_all is_space pre \<and> list_all is_space post
           \<and> piece \<noteq> [] \<and> \<not> is_space (hd piece) \<and> \<not> is_space (last piece)"
      by blast
  qed
qed

theorem scrape_text_visible_text_witness:
  "scrape_text example_env (lit ''https://lenovo.com/about'') initial_state =
     (Inr (lit ''We build laptops''), initial_state)
   \<and> visible_strings removed_tags example_page = [lit ''We build'', lit ''laptops'']"
proof -
  have f: "get_checked example_env (lit ''https://lenovo.com/about'') initial_state =
     (Inr \<lparr>status_code = 200, reason = lit ''OK'', resp_url = lit ''https://lenovo.com/about'',
           resp_text = lit ''ABOUT''\<rparr>, initial_state)"
    by (rule example_about_fetched)
  have p: "BeautifulSoup example_env
      (resp_text \<lparr>status_code = 200, reason = lit ''OK'',
         resp_url = lit ''https://lenovo.com/about'', resp_text = lit ''ABOUT''\<rparr>)
      = Inr example_page"
    by (simp add: example_page_parsed)
  from scrape_text_visible_text[OF f p] show ?thesis
    by (simp add: example_page_visible spaced_def lit_def)
qed

subsection \<open>Link discovery fails softly\<close>

text \<open>
  Claim C6. When the GET of the base URL raises a \<^verbatim>\<open>RequestException\<close>, or answers with
  a status from 400 to 599 so that \<^verbatim>\<open>raise_for_status\<close> raises one, \<open>get_relevant_links\<close>
  returns the empty list and prints one line, \<^verbatim>\<open>Error fetching\<close> with the URL and the
  error; it returns normally, no exception leaves it.
\<close>

theorem get_relevant_links_fail_soft:
  "(requests_get env base_url (world st) = (Inl (RequestException msg), w) \<longrightarrow>
      get_relevant_links env base_url st =
        (Inr [], st\<lparr>world := w,
                    stdout := stdout st @ [lit ''Error fetching '' @ base_url @ lit '': '' @ msg]\<rparr>))
   \<and> (requests_get env base_url (world st) = (Inr r, w)
        \<and> 400 \<le> status_code r \<and> status_code r < 600 \<longrightarrow>
      (\<exists>msg. raise_for_status r = Some (RequestException msg) \<and>
         get_relevant_links env base_url st =
           (Inr [], st\<lparr>world := w,
                       stdout := stdout st @ [lit ''Error fetching '' @ base_url @ lit '': '' @ msg]\<rparr>)))"
proof (intro conjI impI)
  assume "requests_get env base_url (world st) = (Inl (RequestException msg), w)"
  then show "get_relevant_links env base_url st =
        (Inr [], st\<lparr>world := w,
                    stdout := stdout st @ [lit ''Error fetching '' @ base_url @ lit '': '' @ msg]\<rparr>)"
    by (simp add: get_relevant_links_request_error[OF get_checked_raise] print_def)
next
  assume a: "requests_get env base_url (world st) = (Inr r, w)
        \<and> 400 \<le> status_code r \<and> status_code r < 600"
  then obtain m where m: "raise_for_status r = Some (RequestException m)"
    using raise_for_status_error by blast
  define e where "e = RequestException m"
  note e = m[folded e_def] and m = e_def
  from a e m have "get_checked env base_url st = (Inl (RequestException m), st\<lparr>world := w\<rparr>)"
    by (simp add: get_checked_status)
  then have "get_relevant_links env base_url st =
           (Inr [], st\<lparr>world := w,
                       stdout := stdout st @ [lit ''Error fetching '' @ base_url @ lit '': '' @ m]\<rparr>)"
    by (simp add: get_relevant_links_request_error print_def)
  with e m show "\<exists>msg. raise_for_status r = Some (RequestException msg) \<and>
         get_relevant_links env base_url st =
           (Inr [], st\<lparr>world := w,
                       stdout := stdout st @ [lit ''Error fetching '' @ base_url @ lit '': '' @ msg]\<rparr>)"
    by blast
qed

theorem get_relevant_links_fail_soft_witness:
  "get_relevant_links example_env (lit ''https://www.gsk.com'') initial_state =
     (Inr [], initial_state\<lparr>world := [],
        stdout := [lit ''Error fetching https://www.gsk.com: connection refused'']\<rparr>)
   \<and> get_relevant_links example_env (lit ''https://lenovo.com/contact-us'') initial_state =
     (Inr [], initial_state\<lparr>world := [],
        stdout := [lit ''Error fetching https://lenovo.com/contact-us: 404 Client Error: Not Found for url: https://lenovo.com/contact-us'']\<rparr>)"
proof -
  have g1: "requests_get example_env (lit ''https://www.gsk.com'') (world initial_state) =
      (Inl (RequestException (lit ''connection refused'')), [])"
    by (simp add: eval_defs)
  have g2: "requests_get example_env (lit ''https://lenovo.com/contact-us'') (world initial_state) =
      (Inr \<lparr>status_code = 404, reason = lit ''Not Found'',
            resp_url = lit ''https://lenovo.com/contact-us'', resp_text = lit ''''\<rparr>, [])
      \<and> 400 \<le> status_code \<lparr>status_code = 404, reason = lit ''Not Found'',
            resp_url = lit ''https://lenovo.com/contact-us'', resp_text = lit ''''\<rparr>
      \<and> status_code \<lparr>status_code = 404, reason = lit ''Not Found'',
            resp_url = lit ''https://lenovo.com/contact-us'', resp_text = lit ''''\<rparr> < 600"
    by (simp add: eval_defs)
  have s: "str_nat 404 = lit ''404''" by code_simp
  from get_relevant_links_fail_soft[of example_env "(lit ''https://www.gsk.com'')" initial_state
      "(lit ''connection refused'')" "[]"] g1
  have c1: "get_relevant_links example_env (lit ''https://www.gsk.com'') initial_state =
     (Inr [], initial_state\<lparr>world := [],
        stdout := [lit ''Error fetching https://www.gsk.com: connection refused'']\<rparr>)"
    by (simp add: initial_state_def lit_def)
  from get_relevant_links_fail_soft[of example_env "(lit ''https://lenovo.com/contact-us'')" initial_state
      _ "[]" "\<lparr>status_code = 404, reason = lit ''Not Found'',
            resp_url = lit ''https://lenovo.com/contact-us'', resp_text = lit ''''\<rparr>"] g2
  have c2: "get_relevant_links example_env (lit ''https://lenovo.com/contact-us'') initial_state =
     (Inr [], initial_state\<lparr>world := [],
        stdout := [lit ''Error fetching https://lenovo.com/contact-us: 404 Client Error: Not Found for url: https://lenovo.com/contact-us'']\<rparr>)"
    by (auto simp: initial_state_def raise_for_status_def str_nat_404 lit_def)
  from c1 c2 show ?thesis by simp
qed

subsection \<open>Page scraping fails softly\<close>

text \<open>
  Claim C7. When the GET of the URL raises a \<^verbatim>\<open>RequestException\<close>, or answers with a
  status from 400 to 599 so that \<^verbatim>\<open>raise_for_status\<close> raises one, \<open>scrape_text\<close> prints
  one line, \<^verbatim>\<open>Error scraping\<close> with the URL and the error, and returns the empty
  string; it returns normally, no exception leaves it.
\<close>

theorem scrape_text_fail_soft:
  "(requests_get env url (world st) = (Inl (RequestException msg), w) \<longrightarrow>
      scrape_text env url st =
        (Inr [], st\<lparr>world := w,
                    stdout := stdout st @ [lit ''Error scraping '' @ url @ lit '': '' @ msg]\<rparr>))
   \<and> (requests_get env url (world st) = (Inr r, w)
        \<and> 400 \<le> status_code r \<and> status_code r < 600 \<longrightarrow>
      (\<exists>msg. raise_for_status r = Some (RequestException msg) \<and>
         scrape_text env url st =
           (Inr [], st\<lparr>world := w,
                       stdout := stdout st @ [lit ''Error scraping '' @ url @ lit '': '' @ msg]\<rparr>)))"
proof (intro conjI impI)
  assume "requests_get env url (world st) = (Inl (RequestException msg), w)"
  then show "scrape_text env url st =
        (Inr [], st\<lparr>world := w,
                    stdout := stdout st @ [lit ''Error scraping '' @ url @ lit '': '' @ msg]\<rparr>)"
    by (simp add: scrape_text_request_error[OF get_checked_raise] print_def)
next
  assume a: "requests_get env url (world st) = (Inr r, w)
        \<and> 400 \<le> status_code r \<and> status_code r < 600"
  then obtain m where m: "raise_for_status r = Some (RequestException m)"
    using raise_for_status_error by blast
  with a have "get_checked env url st = (Inl (RequestException m), st\<lparr>world := w\<rparr>)"
    by (simp add: get_checked_status)
  then have "scrape_text env url st =
           (Inr [], st\<lparr>world := w,
                       stdout := stdout st @ [lit ''Error scraping '' @ url @ lit '': '' @ m]\<rparr>)"
    by (simp add: scrape_text_request_error print_def)
  with m show "\<exists>msg. raise_for_status r = Some (RequestException msg) \<and>
         scrape_text env url st =
           (Inr [], st\<lparr>world := w,
                       stdout := stdout st @ [lit ''Error scraping '' @ url @ lit '': '' @ msg]\<rparr>)"
    by blast
qed

theorem scrape_text_fail_soft_witness:
  "scrape_text example_env (lit ''https://www.gsk.com/about'') initial_state =
     (Inr [], initial_state\<lparr>world := [],
        stdout := [lit ''Error scraping https://www.gsk.com/about: connection refused'']\<rparr>)
   \<and> scrape_text example_env (lit ''https://lenovo.com/contact-us'') initial_state =
     (Inr [], initial_state\<lparr>world := [],
        stdout := [lit ''Error scraping https://lenovo.com/contact-us: 404 Client Error: Not Found for url: https://lenovo.com/contact-us'']\<rparr>)"
proof -
  have g1: "requests_get example_env (lit ''https://www.gsk.com/about'') (world initial_state) =
      (Inl (RequestException (lit ''connection refused'')), [])"
    by (simp add: eval_defs)
  have g2: "requests_get example_env (lit ''https://lenovo.com/contact-us'') (world initial_state) =
      (Inr \<lparr>status_code = 404, reason = lit ''Not Found'',
            resp_url = lit ''https://lenovo.com/contact-us'', resp_text = lit ''''\<rparr>, [])
      \<and> 400 \<le> status_code \<lparr>status_code = 404, reason = lit ''Not Found'',
            resp_url = lit ''https://lenovo.com/contact-us'', resp_text = lit ''''\<rparr>
      \<and> status_code \<lparr>status_code = 404, reason = lit ''Not Found'',
            resp_url = lit ''https://lenovo.com/contact-us'', resp_text = lit ''''\<rparr> < 600"
    by (simp add: eval_defs)
  have s: "str_nat 404 = lit ''404''" by code_simp
  from scrape_text_fail_soft[of example_env "(lit ''https://www.gsk.com/about'')" initial_state
      "(lit ''connection refused'')" "[]"] g1
  have c1: "scrape_text example_env (lit ''https://www.gsk.com/about'') initial_state =
     (Inr [], initial_state\<lparr>world := [],
        stdout := [lit ''Error scraping https://www.gsk.com/about: connection refused'']\<rparr>)"
    by (simp add: initial_state_def lit_def)
  from scrape_text_fail_soft[of example_env "(lit ''https://lenovo.com/contact-us'')" initial_state
      _ "[]" "\<lparr>status_code = 404, reason = lit ''Not Found'',
            resp_url = lit ''https://lenovo.com/contact-us'', resp_text = lit ''''\<rparr>"] g2
  have c2: "scrape_text example_env (lit ''https://lenovo.com/contact-us'') initial_state =
     (Inr [], initial_state\<lparr>world := [],
        stdout := [lit ''Error scraping https://lenovo.com/contact-us: 404 Client Error: Not Found for url: https://lenovo.com/contact-us'']\<rparr>)"
    by (auto simp: initial_state_def raise_for_status_def str_nat_404 lit_def)
  from c1 c2 show ?thesis by simp
qed

subsection \<open>Detail extraction when the model cannot be reached\<close>

text \<open>
  Claim C8 says that \<open>extract_details\<close> logs and returns the empty string on a
  transport-related error. Its \<^verbatim>\<open>except\<close> clause names \<^verbatim>\<open>requests.RequestException\<close>, the
  class that the two fetching functions catch around \<^verbatim>\<open>requests.get\<close>; the call it
  guards is made by the \<^verbatim>\<open>google.generativeai\<close> client, which reports a service that
  cannot be reached with exceptions of its own, outside that class. At such a failure
  the exception leaves \<open>extract_details\<close>, nothing is printed, and \<open>main\<close> ends without
  writing the file. An exception of the \<^verbatim>\<open>requests\<close> class at the same place is logged
  and gives the empty string.
\<close>

theorem extract_details_service_unavailable:
  "extract_details unavailable_model_env (lit ''We build laptops'') initial_state =
     (Inl (OtherException (lit ''503 The service is currently unavailable.'')),
      \<lparr>world = [prompt_head @ lit ''We build laptops'' @ prompt_tail],
       stdout = [], csv_file = None\<rparr>)
   \<and> fst (main unavailable_model_env initial_state) =
       Inl (OtherException (lit ''503 The service is currently unavailable.''))
   \<and> csv_file (snd (main unavailable_model_env initial_state)) = None
   \<and> extract_details offline_model_env (lit ''We build laptops'') initial_state =
     (Inr (lit ''''),
      \<lparr>world = [prompt_head @ lit ''We build laptops'' @ prompt_tail],
       stdout = [lit ''Error extracting details due to a request issue: connection reset''],
       csv_file = None\<rparr>)"
  by (simp add: unavailable_model_extract unavailable_model_main offline_model_extract)

subsection \<open>Link discovery removes duplicates\<close>

text \<open>
  Claim C9. For every homepage that was fetched and parsed, a list that
  \<open>get_relevant_links\<close> returns has no repetitions: every URL in it occurs exactly once,
  and the URL of every anchor with a matching href is in it exactly once, however many
  anchors of the page lead to that URL.
\<close>

theorem get_relevant_links_deduplicates:
  "get_checked env base_url st = (Inr response, st1) \<Longrightarrow>
   BeautifulSoup env (resp_text response) = Inr soup \<Longrightarrow>
   get_relevant_links env base_url st = (Inr links, st') \<Longrightarrow>
   distinct links
   \<and> (\<forall>url \<in> set links. count_list links url = 1)
   \<and> (\<forall>href \<in> set (anchor_hrefs soup).
         any_keyword (lower env href) \<longrightarrow>
           (\<exists>url. urljoin env base_url (lower env href) = Inr url
              \<and> count_list links url = 1))"
proof -
  assume ok: "get_checked env base_url st = (Inr response, st1)"
    and soup: "BeautifulSoup env (resp_text response) = Inr soup"
    and ret: "get_relevant_links env base_url st = (Inr links, st')"
  from get_relevant_links_result[OF ok soup ret] obtain urls where
    l: "links = list_of_set env urls"
    and j: "map (urljoin env base_url)
        (filter any_keyword (map (lower env) (anchor_hrefs soup))) = map Inr urls"
    by blast
  have d: "distinct links" unfolding l by (rule distinct_list_of_set)
  have once: "\<forall>url \<in> set links. count_list links url = 1"
    using d by (simp add: count_list_distinct)
  have "\<forall>href \<in> set (anchor_hrefs soup). any_keyword (lower env href) \<longrightarrow>
      (\<exists>url. urljoin env base_url (lower env href) = Inr url \<and> count_list links url = 1)"
  proof (intro ballI impI)
    fix href assume "href \<in> set (anchor_hrefs soup)" "any_keyword (lower env href)"
    then have "lower env href \<in> set (filter any_keyword (map (lower env) (anchor_hrefs soup)))"
      by simp
    from joined_member[OF j this] obtain url where
      "urljoin env base_url (lower env href) = Inr url" "url \<in> set urls" by blast
    with once l show "\<exists>url. urljoin env base_url (lower env href) = Inr url
        \<and> count_list links url = 1"
      by (auto simp: set_list_of_set)
  qed
  with d once show ?thesis by blast
qed

theorem get_relevant_links_deduplicates_witness:
  "get_relevant_links example_env (lit ''https://lenovo.com'') initial_state =
     (Inr [lit ''https://lenovo.com/about'', lit ''https://lenovo.com/contact-us''],
      initial_state\<lparr>stdout := stdout initial_state @
        [lit ''Found relevant link: https://lenovo.com/about'',
         lit ''Found relevant link: https://lenovo.com/about'',
         lit ''Found relevant link: https://lenovo.com/contact-us'']\<rparr>)
   \<and> distinct [lit ''https://lenovo.com/about'', lit ''https://lenovo.com/contact-us'']
   \<and> anchor_hrefs example_home =
        [lit ''/About'', lit ''/investors'', lit ''/about'', lit ''/Contact-Us'']
   \<and> (\<exists>url. urljoin example_env (lit ''https://lenovo.com'') (lower example_env (lit ''/About''))
          = Inr url
        \<and> count_list [lit ''https://lenovo.com/about'', lit ''https://lenovo.com/contact-us'']
             url = 1)"
proof -
  note t = get_relevant_links_deduplicates[OF example_home_fetched[of initial_state]
      example_home_parsed example_home_links[of initial_state]]
  from t have "distinct [lit ''https://lenovo.com/about'', lit ''https://lenovo.com/contact-us'']"
    by blast
  moreover from t have "\<exists>url. urljoin example_env (lit ''https://lenovo.com'')
          (lower example_env (lit ''/About'')) = Inr url
        \<and> count_list [lit ''https://lenovo.com/about'', lit ''https://lenovo.com/contact-us'']
             url = 1"
    by (simp add: example_home_hrefs example_lower example_any_keyword)
  ultimately show ?thesis using example_home_links example_home_hrefs by blast
qed

subsection \<open>Discovered URLs come from lowercased hrefs\<close>




end
